theory Spec2Isabelle
  imports Main "HOL-Library.Char_ord" "HOL-Library.List_Lexorder"
begin

section \<open>jungle/ec2.py: instance selection, command composition, listing\<close>

text \<open>
  The module is a command-line front end over a cloud provider SDK. Its functions are
  embedded here as HOL functions with the same names and the same order of checks.

  \<^item> Python \<open>str\<close> is \<open>string\<close>, one \<open>char\<close> for each code point below 256, ordered as
    Python orders strings; \<open>None\<close>-able values are \<open>option\<close>s; the port is an unbounded
    \<open>int\<close>. Where Python 2 and 3 differ, the model follows Python 3.
  \<^item> Everything a function does besides returning (writing to standard output or to the
    error stream, asking the provider, prompting, starting a shell) is an \<open>event\<close>; a
    function with effects returns the events it caused, in order, and how it ended.
  \<^item> \<^verbatim>\<open>sys.exit(n)\<close> ends with \<open>Exit n\<close>, an exception nobody catches with \<open>Raise\<close>.
  \<^item> The provider, the answer typed at the prompt and the status of the started shell
    are inputs, collected in the record \<open>world\<close>.
\<close>

subsection \<open>Data\<close>

text \<open>An instance as the SDK exposes it: its id, its tags (a list of key/value pairs, or
  \<open>None\<close>), the name of its state, the two addresses and the name of its key pair.\<close>

record ec2_instance =
  inst_id :: string
  tags :: "(string \<times> string) list option"
  state_name :: string
  private_ip_address :: "string option"
  public_ip_address :: "string option"
  key_name :: "string option"

datatype exn = ClientError string | ValueError | TypeError | UnboundLocalError

datatype event =
    Echo string
  | EchoErr string
  | Prompt string
  | CreateSession "string option"
  | LoadInstance string
  | FilterInstances "(string \<times> string list) list"
  | ShellCall string

datatype 'a res = Return 'a | Exit int | Raise exn

type_synonym 'a io = "event list \<times> 'a res"

text \<open>\<open>load_instance\<close> is \<^verbatim>\<open>ec2.Instance(id)\<close> followed by the first attribute read,
  \<open>filter_instances\<close> is iterating \<^verbatim>\<open>ec2.instances.filter(Filters=conditions)\<close>; \<open>Inl msg\<close>
  is the provider's \<open>ClientError\<close> with text \<open>msg\<close>. \<open>prompt_answer\<close> is the integer
  typed at the prompt, \<open>None\<close> when the user just presses enter. \<open>shell_status\<close> is
  what \<^verbatim>\<open>subprocess.call(cmd, shell=True)\<close> returns.\<close>

record world =
  load_instance :: "string \<Rightarrow> string + ec2_instance"
  filter_instances :: "(string \<times> string list) list \<Rightarrow> string + ec2_instance list"
  prompt_answer :: "int option"
  shell_status :: "string \<Rightarrow> int"

definition io_bind :: "'a io \<Rightarrow> ('a \<Rightarrow> 'b io) \<Rightarrow> 'b io" where
  "io_bind m f =
     (case m of
        (es, Return a) \<Rightarrow> (case f a of (es', r) \<Rightarrow> (es @ es', r))
      | (es, Exit n) \<Rightarrow> (es, Exit n)
      | (es, Raise e) \<Rightarrow> (es, Raise e))"

text \<open>The exit status of the process: 0 when the command function returns, the argument
  of \<open>sys.exit\<close>, 1 after a traceback.\<close>

fun exit_code :: "'a res \<Rightarrow> int" where
  "exit_code (Return _) = 0"
| "exit_code (Exit n) = n"
| "exit_code (Raise _) = 1"

subsection \<open>Python's string primitives\<close>

text \<open>Formatting \<open>None\<close> with \<open>str\<close> or an empty format specification gives the text
  \<open>None\<close>.\<close>

fun py_str :: "string option \<Rightarrow> string" where
  "py_str None = ''None''"
| "py_str (Some s) = s"

definition digit_char :: "nat \<Rightarrow> char" where
  "digit_char d = ''0123456789'' ! d"

fun str_nat :: "nat \<Rightarrow> string" where
  "str_nat n = (if n < 10 then [digit_char n] else str_nat (n div 10) @ [digit_char (n mod 10)])"

declare str_nat.simps [simp del]

definition str_int :: "int \<Rightarrow> string" where
  "str_int i = (if i < 0 then CHR ''-'' # str_nat (nat (- i)) else str_nat (nat i))"


text \<open>\<^verbatim>\<open>s.split(c)\<close> with an explicit separator: one more piece than there are separators,
  empty pieces kept. The result is never empty, so the second branch of the \<open>case\<close> is
  never taken.\<close>

fun split_on :: "char \<Rightarrow> string \<Rightarrow> string list" where
  "split_on c [] = [[]]"
| "split_on c (x # xs) =
     (if x = c then [] # split_on c xs
      else (case split_on c xs of
              piece # pieces \<Rightarrow> (x # piece) # pieces
            | [] \<Rightarrow> [[x]]))"

text \<open>The characters \<^verbatim>\<open>s.strip()\<close> removes, among the code points below 256.\<close>

definition is_space :: "char \<Rightarrow> bool" where
  "is_space c = (c \<in> {CHR 0x09, CHR 0x0A, CHR 0x0B, CHR 0x0C, CHR 0x0D, CHR 0x1C, CHR 0x1D,
                        CHR 0x1E, CHR 0x1F, CHR 0x20, CHR 0x85, CHR 0xA0})"

definition strip :: "string \<Rightarrow> string" where
  "strip s = rev (dropWhile is_space (rev (dropWhile is_space s)))"

text \<open>Assignment \<^verbatim>\<open>d[k] = v\<close> on a dict, which keeps insertion order: an existing key keeps its
  place, a new key goes last.\<close>

fun dict_set :: "string \<Rightarrow> string \<Rightarrow> (string \<times> string) list \<Rightarrow> (string \<times> string) list" where
  "dict_set k v [] = [(k, v)]"
| "dict_set k v (p # ps) = (if fst p = k then (k, v) # ps else p # dict_set k v ps)"

text \<open>\<^verbatim>\<open>sorted(xs, key=f)\<close>: ascending in the key, stable.\<close>

definition py_sorted :: "('a \<Rightarrow> string) \<Rightarrow> 'a list \<Rightarrow> 'a list" where
  "py_sorted f xs = sort_key f xs"

subsection \<open>The helpers of the module\<close>

fun get_tag_value :: "(string \<times> string) list option \<Rightarrow> string \<Rightarrow> string" where
  "get_tag_value None key = ''''"
| "get_tag_value (Some x) key =
     (case filter (\<lambda>y. fst y = key) x of
        [] \<Rightarrow> ''''
      | y # _ \<Rightarrow> snd y)"

definition get_instance_ip_address :: "ec2_instance \<Rightarrow> bool \<Rightarrow> (string option) io" where
  "get_instance_ip_address instance use_private_ip =
     (if use_private_ip then ([], Return (private_ip_address instance))
      else if public_ip_address instance \<noteq> None then ([], Return (public_ip_address instance))
      else ([Echo ''Public IP address not set. Attempting to use the private IP address.''],
            Return (private_ip_address instance)))"


fun parse_tags_loop :: "string list \<Rightarrow> (string \<times> string) list \<Rightarrow> exn + (string \<times> string) list" where
  "parse_tags_loop [] tags_dict = Inr tags_dict"
| "parse_tags_loop (tag # tags_list) tags_dict =
     (case split_on CHR '':'' (strip tag) of
        [tag_key, tag_value] \<Rightarrow> parse_tags_loop tags_list (dict_set tag_key tag_value tags_dict)
      | _ \<Rightarrow> Inl ValueError)"

definition parse_tags :: "string \<Rightarrow> exn + (string \<times> string) list" where
  "parse_tags tags_str = parse_tags_loop (split_on CHR '','' tags_str) []"

definition build_option_username :: "string option \<Rightarrow> string" where
  "build_option_username username =
     (case username of None \<Rightarrow> '''' | Some u \<Rightarrow> '' -l '' @ u)"

subsection \<open>Listing\<close>




subsection \<open>Resolving the target and composing the command\<close>

definition invalid_instance_id :: "string option \<Rightarrow> string \<Rightarrow> string" where
  "invalid_instance_id instance_id e =
     ''Invalid instance ID '' @ py_str instance_id @ '' ('' @ e @ '')''"

text \<open>The line printed for one candidate when the choice is left to the user.\<close>

definition candidate_line :: "nat \<times> ec2_instance \<Rightarrow> string" where
  "candidate_line p =
     (case p of (idx, i) \<Rightarrow>
        ''['' @ str_int (int idx) @ '']: '' @ inst_id i @ [CHR 0x09]
        @ py_str (public_ip_address i) @ [CHR 0x09] @ state_name i @ [CHR 0x09]
        @ get_tag_value (tags i) ''Name'' @ [CHR 0x09] @ py_str (key_name i))"

definition conditions_of :: "(string \<times> string) list \<Rightarrow> (string \<times> string list) list" where
  "conditions_of instance_tags =
     (''instance-state-name'', [''running''])
     # map (\<lambda>kv. (''tag:'' @ fst kv, [snd kv])) instance_tags"

text \<open>Lines 120 to 155 of \<open>create_ssh_command\<close>: the two local variables \<open>instance\<close> and
  \<open>hostname\<close> after the selection, \<open>None\<close> when neither branch ran and they are unbound.
  The collection \<open>instances\<close> is the list the provider answers, the same each time it is
  iterated.\<close>

definition resolve_target ::
  "world \<Rightarrow> string option \<Rightarrow> (string \<times> string) list option \<Rightarrow> bool
   \<Rightarrow> ((ec2_instance \<times> string option) option) io" where
  "resolve_target w instance_id instance_tags use_private_ip =
     (case instance_id of
        Some iid \<Rightarrow>
          (case load_instance w iid of
             Inl e \<Rightarrow> ([LoadInstance iid, EchoErr (invalid_instance_id instance_id e)], Exit 2)
           | Inr inst \<Rightarrow>
               io_bind ([LoadInstance iid], Return ())
                 (\<lambda>_. io_bind (get_instance_ip_address inst use_private_ip)
                   (\<lambda>hostname. ([], Return (Some (inst, hostname))))))
      | None \<Rightarrow>
          (case instance_tags of
             None \<Rightarrow> ([], Return None)
           | Some tgs \<Rightarrow>
               (let conditions = conditions_of tgs in
                case filter_instances w conditions of
                  Inl e \<Rightarrow>
                    ([FilterInstances conditions, EchoErr (invalid_instance_id instance_id e)],
                     Exit 2)
                | Inr instances \<Rightarrow>
                    (let target_instances =
                           py_sorted (\<lambda>i. get_tag_value (tags i) ''Name'') instances in
                     if length target_instances = 1 then
                       io_bind ([FilterInstances conditions], Return ())
                         (\<lambda>_. io_bind
                            (get_instance_ip_address (target_instances ! 0) use_private_ip)
                            (\<lambda>hostname. ([], Return (Some (target_instances ! 0, hostname)))))
                     else
                       (let listing = map (\<lambda>p. Echo (candidate_line p)) (enumerate 0 instances);
                            selected_idx = (case prompt_answer w of None \<Rightarrow> 0 | Some n \<Rightarrow> n);
                            asked = FilterInstances conditions # listing
                                    @ [Prompt ''Please enter a valid number'']
                        in
                        if int (length target_instances) - 1 < selected_idx \<or> selected_idx < 0
                        then
                          (asked @ [EchoErr (''selected number ['' @ str_int selected_idx
                                             @ ''] is invalid'')],
                           Exit 2)
                        else
                          io_bind (asked @ [Echo (str_int selected_idx @ '' is selected.'')],
                                   Return ())
                            (\<lambda>_. io_bind
                               (get_instance_ip_address
                                  (target_instances ! nat selected_idx) use_private_ip)
                               (\<lambda>hostname.
                                  ([], Return (Some (target_instances ! nat selected_idx,
                                                     hostname))))))))))"

text \<open>Lines 157 to 178 of \<open>create_ssh_command\<close>. Reading an unbound local raises
  \<open>UnboundLocalError\<close>; the gateway is looked up outside any \<open>try\<close>, so the provider's
  error is not caught there.\<close>

definition compose_command ::
  "world \<Rightarrow> (ec2_instance \<times> string option) option \<Rightarrow> string option \<Rightarrow> string option
   \<Rightarrow> int \<Rightarrow> string option \<Rightarrow> string option \<Rightarrow> string option \<Rightarrow> string io" where
  "compose_command w target username key_file port ssh_options
                   gateway_instance_id gateway_username =
     (let key_file_option = (case key_file of None \<Rightarrow> '''' | Some k \<Rightarrow> '' -i '' @ k);
          gateway_username_option = build_option_username gateway_username;
          username_option = build_option_username username;
          ssh_options' = (case ssh_options of None \<Rightarrow> '''' | Some s \<Rightarrow> '' '' @ s)
      in
      case gateway_instance_id of
        Some gid \<Rightarrow>
          (case load_instance w gid of
             Inl e \<Rightarrow> ([LoadInstance gid], Raise (ClientError e))
           | Inr gateway_instance \<Rightarrow>
               (let gateway_public_ip = public_ip_address gateway_instance in
                case target of
                  None \<Rightarrow> ([LoadInstance gid], Raise UnboundLocalError)
                | Some (inst, _) \<Rightarrow>
                    (let hostname = private_ip_address inst in
                     ([LoadInstance gid],
                      Return (''ssh -tt'' @ gateway_username_option @ '' ''
                              @ py_str gateway_public_ip @ key_file_option @ '' -p ''
                              @ str_int port @ ssh_options' @ '' ssh'' @ username_option
                              @ '' '' @ py_str hostname)))))
      | None \<Rightarrow>
          (case target of
             None \<Rightarrow> ([], Raise UnboundLocalError)
           | Some (_, hostname) \<Rightarrow>
               ([], Return (''ssh'' @ username_option @ '' '' @ py_str hostname
                            @ key_file_option @ '' -p '' @ str_int port @ ssh_options'))))"

definition create_ssh_command ::
  "world \<Rightarrow> string option \<Rightarrow> (string \<times> string) list option \<Rightarrow> string option
   \<Rightarrow> string option \<Rightarrow> int \<Rightarrow> string option \<Rightarrow> bool \<Rightarrow> string option \<Rightarrow> string option
   \<Rightarrow> string io" where
  "create_ssh_command w instance_id instance_tags username key_file port ssh_options
                      use_private_ip gateway_instance_id gateway_username =
     io_bind (resolve_target w instance_id instance_tags use_private_ip)
       (\<lambda>target. compose_command w target username key_file port ssh_options
                    gateway_instance_id gateway_username)"

subsection \<open>The connect command\<close>

definition one_has_to_be_specified :: string where
  "one_has_to_be_specified =
     ''One of --instance-id/-i or --instance-name/-n or --instance-tags/-t''
     @ '' has to be specified.''"

definition only_one_can_be_specified :: string where
  "only_one_can_be_specified =
     ''Only one of --instance-id/-i or --instance-name/-n or --instance-tags/-t ''
     @ ''can be specified at the same time.''"

text \<open>Lines 217 to 222 of \<open>ssh\<close>: the tags to filter on, from the name or from the tag
  string; \<open>None\<close> when the instance is given by id.\<close>

definition instance_tags_dict_of ::
  "string option \<Rightarrow> string option \<Rightarrow> exn + (string \<times> string) list option" where
  "instance_tags_dict_of instance_name instance_tags =
     (case instance_name of
        Some n \<Rightarrow> Inr (Some [(''Name'', n)])
      | None \<Rightarrow>
          (case instance_tags of
             Some t \<Rightarrow> (case parse_tags t of Inl e \<Rightarrow> Inl e | Inr d \<Rightarrow> Inr (Some d))
           | None \<Rightarrow> Inr None))"

text \<open>\<open>ssh\<close>, the body of the connect command. The value \<^verbatim>\<open>subprocess.call\<close> returns is
  dropped.\<close>

definition ssh ::
  "world \<Rightarrow> string option \<Rightarrow> string option \<Rightarrow> string option \<Rightarrow> string option
   \<Rightarrow> string option \<Rightarrow> int \<Rightarrow> string option \<Rightarrow> bool \<Rightarrow> string option \<Rightarrow> string option
   \<Rightarrow> bool \<Rightarrow> string option \<Rightarrow> unit io" where
  "ssh w instance_id instance_name instance_tags username key_file port ssh_options
       private_ip gateway_instance_id gateway_username dry_run profile_name =
     (let filters = count_list [instance_id, instance_name, instance_tags] None in
      if filters = 3 then
        ([CreateSession profile_name, EchoErr one_has_to_be_specified], Exit 1)
      else if filters < 2 then
        ([CreateSession profile_name, EchoErr only_one_can_be_specified], Exit 1)
      else
        io_bind ([CreateSession profile_name], Return ())
          (\<lambda>_. io_bind
             (case instance_tags_dict_of instance_name instance_tags of
                Inl e \<Rightarrow> ([], Raise e)
              | Inr d \<Rightarrow> ([], Return d))
             (\<lambda>instance_tags_dict. io_bind
                (create_ssh_command w instance_id instance_tags_dict username key_file port
                   ssh_options private_ip gateway_instance_id gateway_username)
                (\<lambda>cmd. if \<not> dry_run then ([ShellCall cmd], Return ())
                        else ([Echo cmd], Return ())))))"

subsection \<open>Reading a run\<close>


fun is_provider_call :: "event \<Rightarrow> bool" where
  "is_provider_call (LoadInstance _) = True"
| "is_provider_call (FilterInstances _) = True"
| "is_provider_call _ = False"

fun is_shell_call :: "event \<Rightarrow> bool" where
  "is_shell_call (ShellCall _) = True"
| "is_shell_call _ = False"

text \<open>The instance a run of \<open>resolve_target\<close> ended with, if it ended with one.\<close>

fun resolved_instance :: "((ec2_instance \<times> string option) option) io \<Rightarrow> ec2_instance option" where
  "resolved_instance (es, Return (Some (i, h))) = Some i"
| "resolved_instance _ = None"

definition name_tag :: "ec2_instance \<Rightarrow> string" where
  "name_tag i = get_tag_value (tags i) ''Name''"

text \<open>How many of the three selection options were given.\<close>

definition flags_given :: "string option \<Rightarrow> string option \<Rightarrow> string option \<Rightarrow> nat" where
  "flags_given instance_id instance_name instance_tags =
     length (filter (\<lambda>x. x \<noteq> None) [instance_id, instance_name, instance_tags])"

subsection \<open>Example inputs\<close>

definition web_a :: ec2_instance where
  "web_a = \<lparr>inst_id = ''i-a'', tags = Some [(''env'', ''prod''), (''Name'', ''a'')],
            state_name = ''running'', private_ip_address = Some ''10.0.0.5'',
            public_ip_address = Some ''1.1.1.1'', key_name = Some ''ops''\<rparr>"

definition web_b :: ec2_instance where
  "web_b = \<lparr>inst_id = ''i-b'', tags = Some [(''Name'', ''b'')],
            state_name = ''running'', private_ip_address = Some ''10.0.0.6'',
            public_ip_address = None, key_name = None\<rparr>"


definition bastion :: ec2_instance where
  "bastion = \<lparr>inst_id = ''i-gw'', tags = Some [(''Name'', ''gw'')],
              state_name = ''running'', private_ip_address = Some ''10.0.0.1'',
              public_ip_address = Some ''3.3.3.3'', key_name = Some ''ops''\<rparr>"

definition example_load :: "string \<Rightarrow> string + ec2_instance" where
  "example_load iid =
     (if iid = ''i-a'' then Inr web_a
      else if iid = ''i-b'' then Inr web_b
      else if iid = ''i-gw'' then Inr bastion
      else Inl ''InvalidInstanceID.NotFound'')"

text \<open>A provider that answers every query with \<open>web_b\<close> before \<open>web_a\<close>, and a shell whose
  command always ends with status 255.\<close>

definition example_filter :: "(string \<times> string list) list \<Rightarrow> string + ec2_instance list" where
  "example_filter conditions = Inr [web_b, web_a]"

definition failing_shell :: "string \<Rightarrow> int" where
  "failing_shell cmd = 255"

definition example_world :: world where
  "example_world = \<lparr>load_instance = example_load, filter_instances = example_filter,
                     prompt_answer = None, shell_status = failing_shell\<rparr>"

definition no_match_filter :: "(string \<times> string list) list \<Rightarrow> string + ec2_instance list" where
  "no_match_filter conditions = Inr []"

definition no_match_world :: world where
  "no_match_world = \<lparr>load_instance = example_load, filter_instances = no_match_filter,
                      prompt_answer = Some 0, shell_status = failing_shell\<rparr>"


definition single_match_filter :: "(string \<times> string list) list \<Rightarrow> string + ec2_instance list" where
  "single_match_filter conditions = Inr [web_a]"

definition single_match_world :: world where
  "single_match_world = \<lparr>load_instance = example_load, filter_instances = single_match_filter,
                          prompt_answer = None, shell_status = failing_shell\<rparr>"

section \<open>Properties\<close>

subsection \<open>Auxiliary facts\<close>

lemma io_bind_Return: "io_bind (es, Return a) f = (es @ fst (f a), snd (f a))"
  by (simp add: io_bind_def split: prod.splits)

lemma io_bind_Exit: "io_bind (es, Exit n) f = (es, Exit n)"
  by (simp add: io_bind_def)

lemma io_bind_Raise: "io_bind (es, Raise e) f = (es, Raise e)"
  by (simp add: io_bind_def)

lemma snd_get_instance_ip_address:
  "snd (get_instance_ip_address i p) =
     Return (if p then private_ip_address i
             else if public_ip_address i \<noteq> None then public_ip_address i
             else private_ip_address i)"
  by (simp add: get_instance_ip_address_def)

lemma get_instance_ip_address_Return:
  "\<exists>es h. get_instance_ip_address i p = (es, Return h)"
  by (simp add: get_instance_ip_address_def)

lemma str_int_22: "str_int 22 = ''22''"
  by (simp add: str_int_def str_nat.simps digit_char_def)

subsection \<open>Address resolution\<close>

text \<open>
  C3. Address resolution for a chosen instance: with the use-private-address flag the
  private address is returned whatever the public address is; without the flag the public
  address is returned when there is one, otherwise the private address is returned together
  with one warning line, and the function still returns normally.
\<close>

theorem address_resolution:
  "get_instance_ip_address i True = ([], Return (private_ip_address i))
   \<and> (public_ip_address i = Some a \<longrightarrow>
        get_instance_ip_address i False = ([], Return (Some a)))
   \<and> (public_ip_address i = None \<longrightarrow>
        get_instance_ip_address i False =
          ([Echo ''Public IP address not set. Attempting to use the private IP address.''],
           Return (private_ip_address i)))"
  by (simp add: get_instance_ip_address_def)

theorem address_resolution_witness:
  "get_instance_ip_address web_a True = ([], Return (Some ''10.0.0.5''))
   \<and> get_instance_ip_address web_a False = ([], Return (Some ''1.1.1.1''))
   \<and> get_instance_ip_address web_b False =
       ([Echo ''Public IP address not set. Attempting to use the private IP address.''],
        Return (Some ''10.0.0.6''))"
  using address_resolution [of web_a "''1.1.1.1''"] address_resolution [of web_b]
  by (simp add: web_a_def web_b_def)

subsection \<open>Command composition\<close>

text \<open>
  C4. Without a gateway the command is a direct login to the resolved address: \<open>ssh\<close>, then
  \<open>-l\<close> and the user name when one is given, the address, \<open>-i\<close> and the key file when one is
  given, always \<open>-p\<close> and the port, and the extra options verbatim at the very end when given;
  nothing follows that could be a second hop. For the address 10.0.0.5, the user bob and
  port 22 the command is \<open>ssh -l bob 10.0.0.5 -p 22\<close>. The last part states the same for
  the whole of \<open>create_ssh_command\<close> on an instance given by id.
\<close>

theorem compose_without_gateway:
  "compose_command w (Some (inst, hostname)) username key_file port ssh_options None
     gateway_username =
     ([], Return (''ssh'' @ (case username of None \<Rightarrow> '''' | Some u \<Rightarrow> '' -l '' @ u)
                  @ '' '' @ py_str hostname
                  @ (case key_file of None \<Rightarrow> '''' | Some k \<Rightarrow> '' -i '' @ k)
                  @ '' -p '' @ str_int port
                  @ (case ssh_options of None \<Rightarrow> '''' | Some s \<Rightarrow> '' '' @ s)))
   \<and> compose_command w (Some (inst, Some ''10.0.0.5'')) (Some ''bob'') None 22 None None
       gateway_username = ([], Return ''ssh -l bob 10.0.0.5 -p 22'')
   \<and> (load_instance w iid = Inr inst \<longrightarrow>
        snd (create_ssh_command w (Some iid) tgs username key_file port ssh_options
               use_private_ip None gateway_username) =
          Return (''ssh'' @ (case username of None \<Rightarrow> '''' | Some u \<Rightarrow> '' -l '' @ u)
                  @ '' '' @ py_str (if use_private_ip then private_ip_address inst
                                    else if public_ip_address inst \<noteq> None
                                    then public_ip_address inst
                                    else private_ip_address inst)
                  @ (case key_file of None \<Rightarrow> '''' | Some k \<Rightarrow> '' -i '' @ k)
                  @ '' -p '' @ str_int port
                  @ (case ssh_options of None \<Rightarrow> '''' | Some s \<Rightarrow> '' '' @ s)))"
proof (intro conjI impI)
  show "compose_command w (Some (inst, hostname)) username key_file port ssh_options None
     gateway_username =
     ([], Return (''ssh'' @ (case username of None \<Rightarrow> '''' | Some u \<Rightarrow> '' -l '' @ u)
                  @ '' '' @ py_str hostname
                  @ (case key_file of None \<Rightarrow> '''' | Some k \<Rightarrow> '' -i '' @ k)
                  @ '' -p '' @ str_int port
                  @ (case ssh_options of None \<Rightarrow> '''' | Some s \<Rightarrow> '' '' @ s)))"
    by (simp add: compose_command_def build_option_username_def)
  show "compose_command w (Some (inst, Some ''10.0.0.5'')) (Some ''bob'') None 22 None None
       gateway_username = ([], Return ''ssh -l bob 10.0.0.5 -p 22'')"
    by (simp add: compose_command_def build_option_username_def str_int_22)
next
  assume l: "load_instance w iid = Inr inst"
  obtain es h where g: "get_instance_ip_address inst use_private_ip = (es, Return h)"
    using get_instance_ip_address_Return by blast
  have h: "h = (if use_private_ip then private_ip_address inst
                else if public_ip_address inst \<noteq> None then public_ip_address inst
                else private_ip_address inst)"
    using snd_get_instance_ip_address [of inst use_private_ip] g by simp
  have "resolve_target w (Some iid) tgs use_private_ip = (LoadInstance iid # es, Return (Some (inst, h)))"
    by (simp add: resolve_target_def l g io_bind_Return)
  then show "snd (create_ssh_command w (Some iid) tgs username key_file port ssh_options
               use_private_ip None gateway_username) =
          Return (''ssh'' @ (case username of None \<Rightarrow> '''' | Some u \<Rightarrow> '' -l '' @ u)
                  @ '' '' @ py_str (if use_private_ip then private_ip_address inst
                                    else if public_ip_address inst \<noteq> None
                                    then public_ip_address inst
                                    else private_ip_address inst)
                  @ (case key_file of None \<Rightarrow> '''' | Some k \<Rightarrow> '' -i '' @ k)
                  @ '' -p '' @ str_int port
                  @ (case ssh_options of None \<Rightarrow> '''' | Some s \<Rightarrow> '' '' @ s))"
    unfolding h
    by (simp add: create_ssh_command_def io_bind_Return compose_command_def
        build_option_username_def)
qed

theorem compose_without_gateway_witness:
  "load_instance example_world ''i-b'' = Inr web_b
   \<and> snd (create_ssh_command example_world (Some ''i-b'') None (Some ''bob'') (Some ''id_rsa'')
            22 (Some ''-v -A'') False None None) =
       Return ''ssh -l bob 10.0.0.6 -i id_rsa -p 22 -v -A''"
  using compose_without_gateway [of example_world web_b None "Some ''bob''" "Some ''id_rsa''"
          22 "Some ''-v -A''" None "''i-b''" None False]
  by (simp add: example_world_def example_load_def web_b_def str_int_22)

text \<open>
  C1. With a gateway instance id the target address is the private address of the resolved
  instance, whatever address was resolved before and whatever the use-private-address flag
  says, and the command has two hops: \<open>ssh -tt\<close> to the public address of the gateway with the
  gateway user name flag (when given), the key file, the port and the extra options, then
  \<open>ssh\<close> with the user name flag (when given) to the private address of the target.
\<close>

theorem compose_with_gateway:
  "(load_instance w gid = Inr gw \<longrightarrow>
      compose_command w (Some (inst, hostname)) username key_file port ssh_options (Some gid)
        gateway_username =
        ([LoadInstance gid],
         Return (''ssh -tt'' @ (case gateway_username of None \<Rightarrow> '''' | Some u \<Rightarrow> '' -l '' @ u)
                 @ '' '' @ py_str (public_ip_address gw)
                 @ (case key_file of None \<Rightarrow> '''' | Some k \<Rightarrow> '' -i '' @ k)
                 @ '' -p '' @ str_int port
                 @ (case ssh_options of None \<Rightarrow> '''' | Some s \<Rightarrow> '' '' @ s)
                 @ '' ssh'' @ (case username of None \<Rightarrow> '''' | Some u \<Rightarrow> '' -l '' @ u)
                 @ '' '' @ py_str (private_ip_address inst))))
   \<and> (load_instance w gid = Inr gw \<and> load_instance w iid = Inr inst \<longrightarrow>
        snd (create_ssh_command w (Some iid) tgs username key_file port ssh_options
               use_private_ip (Some gid) gateway_username) =
         Return (''ssh -tt'' @ (case gateway_username of None \<Rightarrow> '''' | Some u \<Rightarrow> '' -l '' @ u)
                 @ '' '' @ py_str (public_ip_address gw)
                 @ (case key_file of None \<Rightarrow> '''' | Some k \<Rightarrow> '' -i '' @ k)
                 @ '' -p '' @ str_int port
                 @ (case ssh_options of None \<Rightarrow> '''' | Some s \<Rightarrow> '' '' @ s)
                 @ '' ssh'' @ (case username of None \<Rightarrow> '''' | Some u \<Rightarrow> '' -l '' @ u)
                 @ '' '' @ py_str (private_ip_address inst)))"
proof (intro conjI impI)
  assume g: "load_instance w gid = Inr gw"
  show "compose_command w (Some (inst, hostname)) username key_file port ssh_options (Some gid)
        gateway_username =
        ([LoadInstance gid],
         Return (''ssh -tt'' @ (case gateway_username of None \<Rightarrow> '''' | Some u \<Rightarrow> '' -l '' @ u)
                 @ '' '' @ py_str (public_ip_address gw)
                 @ (case key_file of None \<Rightarrow> '''' | Some k \<Rightarrow> '' -i '' @ k)
                 @ '' -p '' @ str_int port
                 @ (case ssh_options of None \<Rightarrow> '''' | Some s \<Rightarrow> '' '' @ s)
                 @ '' ssh'' @ (case username of None \<Rightarrow> '''' | Some u \<Rightarrow> '' -l '' @ u)
                 @ '' '' @ py_str (private_ip_address inst)))"
    by (simp add: compose_command_def build_option_username_def g)
next
  assume a: "load_instance w gid = Inr gw \<and> load_instance w iid = Inr inst"
  obtain es h where r: "get_instance_ip_address inst use_private_ip = (es, Return h)"
    using get_instance_ip_address_Return by blast
  have "resolve_target w (Some iid) tgs use_private_ip =
          (LoadInstance iid # es, Return (Some (inst, h)))"
    using a by (simp add: resolve_target_def r io_bind_Return)
  then show "snd (create_ssh_command w (Some iid) tgs username key_file port ssh_options
               use_private_ip (Some gid) gateway_username) =
         Return (''ssh -tt'' @ (case gateway_username of None \<Rightarrow> '''' | Some u \<Rightarrow> '' -l '' @ u)
                 @ '' '' @ py_str (public_ip_address gw)
                 @ (case key_file of None \<Rightarrow> '''' | Some k \<Rightarrow> '' -i '' @ k)
                 @ '' -p '' @ str_int port
                 @ (case ssh_options of None \<Rightarrow> '''' | Some s \<Rightarrow> '' '' @ s)
                 @ '' ssh'' @ (case username of None \<Rightarrow> '''' | Some u \<Rightarrow> '' -l '' @ u)
                 @ '' '' @ py_str (private_ip_address inst))"
    using a
    by (simp add: create_ssh_command_def io_bind_Return compose_command_def
        build_option_username_def)
qed

theorem compose_with_gateway_witness:
  "load_instance example_world ''i-gw'' = Inr bastion
   \<and> load_instance example_world ''i-a'' = Inr web_a
   \<and> compose_command example_world (Some (web_a, Some ''1.1.1.1'')) None None 22 None
       (Some ''i-gw'') (Some ''admin'') =
       ([LoadInstance ''i-gw''], Return ''ssh -tt -l admin 3.3.3.3 -p 22 ssh 10.0.0.5'')
   \<and> snd (create_ssh_command example_world (Some ''i-a'') None None None 22 None False
            (Some ''i-gw'') (Some ''admin'')) =
       Return ''ssh -tt -l admin 3.3.3.3 -p 22 ssh 10.0.0.5''
   \<and> snd (create_ssh_command example_world (Some ''i-a'') None None None 22 None True
            (Some ''i-gw'') (Some ''admin'')) =
       Return ''ssh -tt -l admin 3.3.3.3 -p 22 ssh 10.0.0.5''"
  using compose_with_gateway [of example_world "''i-gw''" bastion web_a "Some ''1.1.1.1''"
          None None 22 None "Some ''admin''" "''i-a''" None False]
        compose_with_gateway [of example_world "''i-gw''" bastion web_a "Some ''1.1.1.1''"
          None None 22 None "Some ''admin''" "''i-a''" None True]
  by (simp add: example_world_def example_load_def bastion_def web_a_def str_int_22)

subsection \<open>Tag strings\<close>








lemma ssh_tags_parse_error:
  "parse_tags t = Inl e \<Longrightarrow>
   ssh w None None (Some t) username key_file port ssh_options private_ip gateway_instance_id
     gateway_username dry_run profile_name = ([CreateSession profile_name], Raise e)"
  by (simp add: ssh_def instance_tags_dict_of_def io_bind_Return io_bind_Raise)



subsection \<open>Listing\<close>







subsection \<open>Selection by name or tags\<close>

lemma name_tag_eq: "(\<lambda>i. get_tag_value (tags i) ''Name'') = name_tag"
  by (simp add: fun_eq_iff name_tag_def)

lemma length_py_sorted: "length (py_sorted f xs) = length xs"
  by (simp add: py_sorted_def)

lemma py_sorted_single: "py_sorted f [x] = [x]"
  by (simp add: py_sorted_def)



text \<open>The tag branch of \<open>resolve_target\<close>, case by case.\<close>

lemma resolve_target_single:
  assumes "filter_instances w (conditions_of tgs) = Inr instances"
    and "length instances = 1"
  shows "resolve_target w None (Some tgs) p =
           (FilterInstances (conditions_of tgs)
              # fst (get_instance_ip_address (py_sorted name_tag instances ! 0) p),
            Return (Some (py_sorted name_tag instances ! 0,
                          if p then private_ip_address (py_sorted name_tag instances ! 0)
                          else if public_ip_address (py_sorted name_tag instances ! 0) \<noteq> None
                          then public_ip_address (py_sorted name_tag instances ! 0)
                          else private_ip_address (py_sorted name_tag instances ! 0))))"
proof -
  obtain es h where g:
    "get_instance_ip_address (py_sorted name_tag instances ! 0) p = (es, Return h)"
    using get_instance_ip_address_Return by blast
  have h: "h = (if p then private_ip_address (py_sorted name_tag instances ! 0)
                else if public_ip_address (py_sorted name_tag instances ! 0) \<noteq> None
                then public_ip_address (py_sorted name_tag instances ! 0)
                else private_ip_address (py_sorted name_tag instances ! 0))"
    using snd_get_instance_ip_address [of "py_sorted name_tag instances ! 0" p] g by simp
  show ?thesis
    unfolding h [symmetric]
    using assms
    by (simp add: resolve_target_def name_tag_eq length_py_sorted g io_bind_Return)
qed

lemma resolve_target_invalid:
  assumes "filter_instances w (conditions_of tgs) = Inr instances"
    and "length instances \<noteq> 1"
    and "idx = (case prompt_answer w of None \<Rightarrow> 0 | Some n \<Rightarrow> n)"
    and "int (length instances) - 1 < idx \<or> idx < 0"
  shows "resolve_target w None (Some tgs) p =
           (FilterInstances (conditions_of tgs)
              # map (\<lambda>p. Echo (candidate_line p)) (enumerate 0 instances)
              @ [Prompt ''Please enter a valid number'',
                 EchoErr (''selected number ['' @ str_int idx @ ''] is invalid'')],
            Exit 2)"
  using assms
  by (simp add: resolve_target_def name_tag_eq length_py_sorted Let_def)

lemma resolve_target_selected:
  assumes "filter_instances w (conditions_of tgs) = Inr instances"
    and "length instances \<noteq> 1"
    and "idx = (case prompt_answer w of None \<Rightarrow> 0 | Some n \<Rightarrow> n)"
    and "0 \<le> idx" and "idx < int (length instances)"
  shows "resolve_target w None (Some tgs) p =
           (FilterInstances (conditions_of tgs)
              # map (\<lambda>p. Echo (candidate_line p)) (enumerate 0 instances)
              @ [Prompt ''Please enter a valid number'',
                 Echo (str_int idx @ '' is selected.'')]
              @ fst (get_instance_ip_address (py_sorted name_tag instances ! nat idx) p),
            Return (Some (py_sorted name_tag instances ! nat idx,
                          if p then private_ip_address (py_sorted name_tag instances ! nat idx)
                          else if public_ip_address (py_sorted name_tag instances ! nat idx) \<noteq> None
                          then public_ip_address (py_sorted name_tag instances ! nat idx)
                          else private_ip_address (py_sorted name_tag instances ! nat idx))))"
proof -
  obtain es h where g:
    "get_instance_ip_address (py_sorted name_tag instances ! nat idx) p = (es, Return h)"
    using get_instance_ip_address_Return by blast
  have h: "h = (if p then private_ip_address (py_sorted name_tag instances ! nat idx)
                else if public_ip_address (py_sorted name_tag instances ! nat idx) \<noteq> None
                then public_ip_address (py_sorted name_tag instances ! nat idx)
                else private_ip_address (py_sorted name_tag instances ! nat idx))"
    using snd_get_instance_ip_address [of "py_sorted name_tag instances ! nat idx" p] g by simp
  have c: "\<not> (int (length instances) - 1 < idx \<or> idx < 0)"
    using assms(4,5) by simp
  have i: "(case prompt_answer w of None \<Rightarrow> 0 | Some n \<Rightarrow> n) = idx"
    using assms(3) by simp
  show ?thesis
    unfolding h [symmetric]
    using assms(1,2) c
    by (simp add: resolve_target_def name_tag_eq length_py_sorted Let_def i g io_bind_Return)
qed

lemma sorted_example: "py_sorted name_tag [web_b, web_a] = [web_a, web_b]"
  by (simp add: py_sorted_def name_tag_def web_a_def web_b_def)



subsection \<open>The connect command\<close>

lemma ssh_run:
  assumes "count_list [instance_id, instance_name, instance_tags] None = 2"
    and "instance_tags_dict_of instance_name instance_tags = Inr d"
    and "create_ssh_command w instance_id d username key_file port ssh_options private_ip
           gateway_instance_id gateway_username = (es, r)"
  shows "ssh w instance_id instance_name instance_tags username key_file port ssh_options
           private_ip gateway_instance_id gateway_username dry_run profile_name =
         (CreateSession profile_name # es
            @ (case r of Return cmd \<Rightarrow> [if dry_run then Echo cmd else ShellCall cmd]
               | Exit n \<Rightarrow> [] | Raise e \<Rightarrow> []),
          case r of Return cmd \<Rightarrow> Return () | Exit n \<Rightarrow> Exit n | Raise e \<Rightarrow> Raise e)"
proof (cases r)
  case (Return cmd)
  with assms show ?thesis
    by (simp add: ssh_def io_bind_Return)
next
  case (Exit n)
  with assms show ?thesis
    by (simp add: ssh_def io_bind_Return io_bind_Exit)
next
  case (Raise e)
  with assms show ?thesis
    by (simp add: ssh_def io_bind_Return io_bind_Raise)
qed
lemma str_int_0: "str_int 0 = ''0''"
  by (simp add: str_int_def str_nat.simps digit_char_def)

lemma str_int_1: "str_int 1 = ''1''"
  by (simp add: str_int_def str_nat.simps digit_char_def)

lemma flags_given_count:
  "count_list [a, b, c] None = 3 - flags_given a b c"
  by (cases a; cases b; cases c) (simp_all add: flags_given_def)

lemma flags_given_le: "flags_given a b c \<le> 3"
  by (simp add: flags_given_def)

lemma create_ssh_command_no_match:
  assumes "filter_instances w (conditions_of tgs) = Inr []"
  shows "create_ssh_command w None (Some tgs) username key_file port ssh_options
           use_private_ip gateway_instance_id gateway_username =
         ([FilterInstances (conditions_of tgs), Prompt ''Please enter a valid number'',
           EchoErr (''selected number [''
                    @ str_int (case prompt_answer w of None \<Rightarrow> 0 | Some n \<Rightarrow> n)
                    @ ''] is invalid'')],
          Exit 2)"
proof -
  have "int (length ([]::ec2_instance list)) - 1
          < (case prompt_answer w of None \<Rightarrow> 0 | Some n \<Rightarrow> n)
        \<or> (case prompt_answer w of None \<Rightarrow> 0 | Some n \<Rightarrow> n) < 0"
    by (simp split: option.splits) linarith
  from resolve_target_invalid [OF assms _ refl this, of use_private_ip]
  show ?thesis
    by (simp add: create_ssh_command_def io_bind_Exit enumerate_eq_zip)
qed

text \<open>
  C10. On the path by name or by tags, when the provider answers no instance at all, no
  target is resolved and no command is composed: whatever is answered at the prompt, the
  default 0 included, the run ends with exit status 2 after the message that the number is
  invalid. This holds for \<open>create_ssh_command\<close> and for the whole connect command, with or
  without the dry-run flag.
\<close>

theorem no_match_exits_2:
  "filter_instances w (conditions_of tgs) = Inr [] \<longrightarrow>
     create_ssh_command w None (Some tgs) username key_file port ssh_options
       use_private_ip gateway_instance_id gateway_username =
       ([FilterInstances (conditions_of tgs), Prompt ''Please enter a valid number'',
         EchoErr (''selected number [''
                  @ str_int (case prompt_answer w of None \<Rightarrow> 0 | Some n \<Rightarrow> n)
                  @ ''] is invalid'')],
        Exit 2)
     \<and> resolved_instance (resolve_target w None (Some tgs) use_private_ip) = None
     \<and> (flags_given None instance_name instance_tags = 1
          \<and> instance_tags_dict_of instance_name instance_tags = Inr (Some tgs) \<longrightarrow>
          ssh w None instance_name instance_tags username key_file port ssh_options
            use_private_ip gateway_instance_id gateway_username dry_run profile_name =
            ([CreateSession profile_name, FilterInstances (conditions_of tgs),
              Prompt ''Please enter a valid number'',
              EchoErr (''selected number [''
                       @ str_int (case prompt_answer w of None \<Rightarrow> 0 | Some n \<Rightarrow> n)
                       @ ''] is invalid'')],
             Exit 2)
          \<and> exit_code (snd (ssh w None instance_name instance_tags username key_file port
                               ssh_options use_private_ip gateway_instance_id
                               gateway_username dry_run profile_name)) = 2)"
proof (intro impI conjI)
  assume a: "filter_instances w (conditions_of tgs) = Inr []"
  show c: "create_ssh_command w None (Some tgs) username key_file port ssh_options
       use_private_ip gateway_instance_id gateway_username =
       ([FilterInstances (conditions_of tgs), Prompt ''Please enter a valid number'',
         EchoErr (''selected number [''
                  @ str_int (case prompt_answer w of None \<Rightarrow> 0 | Some n \<Rightarrow> n)
                  @ ''] is invalid'')],
        Exit 2)"
    using a by (rule create_ssh_command_no_match)
  have "int (length ([]::ec2_instance list)) - 1
          < (case prompt_answer w of None \<Rightarrow> 0 | Some n \<Rightarrow> n)
        \<or> (case prompt_answer w of None \<Rightarrow> 0 | Some n \<Rightarrow> n) < 0"
    by (simp split: option.splits) linarith
  from resolve_target_invalid [OF a _ refl this, of use_private_ip]
  show "resolved_instance (resolve_target w None (Some tgs) use_private_ip) = None"
    by simp
  assume b: "flags_given None instance_name instance_tags = 1
          \<and> instance_tags_dict_of instance_name instance_tags = Inr (Some tgs)"
  then have n: "count_list [None, instance_name, instance_tags] None = 2"
    unfolding flags_given_count by simp
  from b have d: "instance_tags_dict_of instance_name instance_tags = Inr (Some tgs)"
    by simp
  note r = ssh_run [OF n d c, of dry_run profile_name]
  show "ssh w None instance_name instance_tags username key_file port ssh_options
            use_private_ip gateway_instance_id gateway_username dry_run profile_name =
            ([CreateSession profile_name, FilterInstances (conditions_of tgs),
              Prompt ''Please enter a valid number'',
              EchoErr (''selected number [''
                       @ str_int (case prompt_answer w of None \<Rightarrow> 0 | Some n \<Rightarrow> n)
                       @ ''] is invalid'')],
             Exit 2)"
    using r by simp
  show "exit_code (snd (ssh w None instance_name instance_tags username key_file port
                               ssh_options use_private_ip gateway_instance_id
                               gateway_username dry_run profile_name)) = 2"
    using r by simp
qed

theorem no_match_exits_2_witness:
  "filter_instances no_match_world (conditions_of [(''Name'', ''web'')]) = Inr []
   \<and> flags_given None (Some ''web'') None = 1
   \<and> instance_tags_dict_of (Some ''web'') None = Inr (Some [(''Name'', ''web'')])
   \<and> ssh no_match_world None (Some ''web'') None None None 22 None False None None True None =
       ([CreateSession None,
         FilterInstances [(''instance-state-name'', [''running'']), (''tag:Name'', [''web''])],
         Prompt ''Please enter a valid number'',
         EchoErr ''selected number [0] is invalid''],
        Exit 2)
   \<and> exit_code (snd (ssh (no_match_world\<lparr>prompt_answer := None\<rparr>) None (Some ''web'') None
                         None None 22 None False None None False None)) = 2"
proof -
  have f: "filter_instances no_match_world (conditions_of [(''Name'', ''web'')]) = Inr []"
     "filter_instances (no_match_world\<lparr>prompt_answer := None\<rparr>)
        (conditions_of [(''Name'', ''web'')]) = Inr []"
    by (simp_all add: no_match_world_def no_match_filter_def)
  have g: "flags_given None (Some ''web'') None = 1"
    by (simp add: flags_given_def)
  have d: "instance_tags_dict_of (Some ''web'') None = Inr (Some [(''Name'', ''web'')])"
    by (simp add: instance_tags_dict_of_def)
  have p: "prompt_answer no_match_world = Some 0"
    by (simp add: no_match_world_def)
  have c1: "ssh no_match_world None (Some ''web'') None None None 22 None False None None
              True None =
            ([CreateSession None,
              FilterInstances (conditions_of [(''Name'', ''web'')]),
              Prompt ''Please enter a valid number'',
              EchoErr (''selected number [''
                 @ str_int (case prompt_answer no_match_world of None \<Rightarrow> 0 | Some n \<Rightarrow> n)
                 @ ''] is invalid'')],
             Exit 2)"
    using no_match_exits_2 [of no_match_world "[(''Name'', ''web'')]" None None 22 None False
            None None "Some ''web''" None True None] f g d
    by blast
  have c2: "exit_code (snd (ssh (no_match_world\<lparr>prompt_answer := None\<rparr>) None (Some ''web'')
                         None None None 22 None False None None False None)) = 2"
    using no_match_exits_2 [of "no_match_world\<lparr>prompt_answer := None\<rparr>"
            "[(''Name'', ''web'')]" None None 22 None False
            None None "Some ''web''" None False None] f g d
    by blast
  show ?thesis
    using f(1) g d c1 c2 by (simp add: p str_int_0 conditions_of_def)
qed

lemma no_shell_io_bind:
  assumes "filter is_shell_call (fst m) = []"
    and "\<And>a. filter is_shell_call (fst (f a)) = []"
  shows "filter is_shell_call (fst (io_bind m f)) = []"
proof (cases m)
  case (Pair es r)
  with assms show ?thesis
    by (cases r) (simp_all add: io_bind_Return io_bind_Exit io_bind_Raise)
qed

lemma no_shell_get_instance_ip_address:
  "filter is_shell_call (fst (get_instance_ip_address i p)) = []"
  by (simp add: get_instance_ip_address_def)

lemma no_shell_listing:
  "filter is_shell_call (map (\<lambda>p. Echo (candidate_line p)) xs) = []"
  by (induction xs) simp_all

lemma no_shell_resolve_target:
  "filter is_shell_call (fst (resolve_target w instance_id instance_tags p)) = []"
proof (cases instance_id)
  case (Some iid)
  then show ?thesis
    by (cases "load_instance w iid")
       (simp_all add: resolve_target_def io_bind_Return get_instance_ip_address_def)
next
  case None
  note id = this
  show ?thesis
  proof (cases instance_tags)
    case None
    with id show ?thesis by (simp add: resolve_target_def)
  next
    case (Some tgs)
    show ?thesis
    proof (cases "filter_instances w (conditions_of tgs)")
      case (Inl e)
      with id Some show ?thesis by (simp add: resolve_target_def)
    next
      case (Inr instances)
      let ?idx = "case prompt_answer w of None \<Rightarrow> 0 | Some n \<Rightarrow> n"
      consider (one) "length instances = 1"
        | (bad) "length instances \<noteq> 1" "int (length instances) - 1 < ?idx \<or> ?idx < 0"
        | (good) "length instances \<noteq> 1" "0 \<le> ?idx" "?idx < int (length instances)"
        by linarith
      then show ?thesis
      proof cases
        case one
        from resolve_target_single [OF Inr one, of p] id Some show ?thesis
          by (simp add: no_shell_get_instance_ip_address)
      next
        case bad
        from resolve_target_invalid [OF Inr bad(1) refl bad(2), of p] id Some show ?thesis
          by (simp add: no_shell_listing)
      next
        case good
        from resolve_target_selected [OF Inr good(1) refl good(2) good(3), of p] id Some
        show ?thesis
          by (simp add: no_shell_listing no_shell_get_instance_ip_address)
      qed
    qed
  qed
qed

lemma no_shell_compose_command:
  "filter is_shell_call
     (fst (compose_command w target username key_file port ssh_options gateway_instance_id
             gateway_username)) = []"
  by (simp add: compose_command_def Let_def split: option.split sum.split prod.split)

lemma no_shell_create_ssh_command:
  "filter is_shell_call
     (fst (create_ssh_command w instance_id instance_tags username key_file port ssh_options
             use_private_ip gateway_instance_id gateway_username)) = []"
  unfolding create_ssh_command_def
  by (rule no_shell_io_bind) (simp_all add: no_shell_resolve_target no_shell_compose_command)

lemma shell_status_unused_resolve:
  "resolve_target (w\<lparr>shell_status := sh\<rparr>) instance_id instance_tags p =
   resolve_target w instance_id instance_tags p"
  by (simp add: resolve_target_def split: option.split sum.split)

lemma shell_status_unused_compose:
  "compose_command (w\<lparr>shell_status := sh\<rparr>) target username key_file port ssh_options
     gateway_instance_id gateway_username =
   compose_command w target username key_file port ssh_options
     gateway_instance_id gateway_username"
  by (cases gateway_instance_id) (simp_all add: compose_command_def)

lemma shell_status_unused:
  "create_ssh_command (w\<lparr>shell_status := sh\<rparr>) instance_id instance_tags username key_file
     port ssh_options use_private_ip gateway_instance_id gateway_username =
   create_ssh_command w instance_id instance_tags username key_file
     port ssh_options use_private_ip gateway_instance_id gateway_username"
  by (simp add: create_ssh_command_def shell_status_unused_resolve shell_status_unused_compose)

lemma create_ssh_command_example_by_id:
  "create_ssh_command example_world (Some ''i-a'') None None None 22 None False None None =
     ([LoadInstance ''i-a''], Return ''ssh 1.1.1.1 -p 22'')"
  by (simp add: create_ssh_command_def resolve_target_def compose_command_def
      example_world_def example_load_def web_a_def get_instance_ip_address_def
      io_bind_Return build_option_username_def str_int_22)

lemma flags_given_one:
  "flags_given a b c = 1 \<longleftrightarrow>
     (\<exists>iid. a = Some iid \<and> b = None \<and> c = None)
     \<or> (\<exists>n. a = None \<and> b = Some n \<and> c = None)
     \<or> (\<exists>t. a = None \<and> b = None \<and> c = Some t)"
  by (cases a; cases b; cases c) (simp_all add: flags_given_def)

lemma create_ssh_command_single_match:
  "create_ssh_command single_match_world None (Some tgs) None None 22 None False None None =
     ([FilterInstances (conditions_of tgs)], Return ''ssh 1.1.1.1 -p 22'')"
proof -
  have f: "filter_instances single_match_world (conditions_of tgs) = Inr [web_a]"
    by (simp add: single_match_world_def single_match_filter_def)
  have pa: "public_ip_address web_a = Some ''1.1.1.1''"
    by (simp add: web_a_def)
  have "resolve_target single_match_world None (Some tgs) False =
          ([FilterInstances (conditions_of tgs)], Return (Some (web_a, Some ''1.1.1.1'')))"
    using resolve_target_single [OF f, of False]
    by (simp add: py_sorted_single get_instance_ip_address_def pa)
  then show ?thesis
    by (simp add: create_ssh_command_def io_bind_Return compose_command_def
        build_option_username_def str_int_22)
qed

lemma parse_tags_role_web: "parse_tags ''role:web'' = Inr [(''role'', ''web'')]"
  by (simp add: parse_tags_def strip_def is_space_def)

lemma parse_tags_env: "parse_tags ''env'' = Inl ValueError"
  by (simp add: parse_tags_def strip_def is_space_def)

text \<open>
  C7, as the code has it. When none of the three selection options (instance id, instance
  name, instance tags) is given, or more than one, the connect command writes its message
  about the options to the error stream and ends with exit status 1; the session has been
  created, the provider has not been asked anything. Exactly one option is given when it is
  the id alone, the name alone or the tag string alone. With the id the run goes on with
  \<open>create_ssh_command\<close> on that id and no tags; with the name, on the single tag \<open>Name\<close>
  with that value; with a tag string that parses, on the parsed tags: the events of
  \<open>create_ssh_command\<close> follow, and the run ends as it ends. With a tag string that does
  not parse the run does not go on: it ends with the parse error and status 1, and the
  provider has not been asked anything.
\<close>

theorem selection_flag_count:
  "(flags_given instance_id instance_name instance_tags = 0 \<longrightarrow>
      ssh w instance_id instance_name instance_tags username key_file port ssh_options
        private_ip gateway_instance_id gateway_username dry_run profile_name =
        ([CreateSession profile_name, EchoErr one_has_to_be_specified], Exit 1))
   \<and> (1 < flags_given instance_id instance_name instance_tags \<longrightarrow>
        ssh w instance_id instance_name instance_tags username key_file port ssh_options
          private_ip gateway_instance_id gateway_username dry_run profile_name =
          ([CreateSession profile_name, EchoErr only_one_can_be_specified], Exit 1))
   \<and> (flags_given instance_id instance_name instance_tags \<noteq> 1 \<longrightarrow>
        exit_code (snd (ssh w instance_id instance_name instance_tags username key_file port
                          ssh_options private_ip gateway_instance_id gateway_username dry_run
                          profile_name)) = 1
        \<and> filter is_provider_call
             (fst (ssh w instance_id instance_name instance_tags username key_file port
                     ssh_options private_ip gateway_instance_id gateway_username dry_run
                     profile_name)) = [])
   \<and> (flags_given instance_id instance_name instance_tags = 1 \<longleftrightarrow>
        (\<exists>iid. instance_id = Some iid \<and> instance_name = None \<and> instance_tags = None)
        \<or> (\<exists>n. instance_id = None \<and> instance_name = Some n \<and> instance_tags = None)
        \<or> (\<exists>t. instance_id = None \<and> instance_name = None \<and> instance_tags = Some t))
   \<and> ssh w (Some iid) None None username key_file port ssh_options private_ip
        gateway_instance_id gateway_username dry_run profile_name =
       (let c = create_ssh_command w (Some iid) None username key_file port ssh_options
                  private_ip gateway_instance_id gateway_username
        in (CreateSession profile_name # fst c
              @ (case snd c of
                   Return cmd \<Rightarrow> [if dry_run then Echo cmd else ShellCall cmd]
                 | Exit n \<Rightarrow> []
                 | Raise e \<Rightarrow> []),
            case snd c of Return cmd \<Rightarrow> Return () | Exit n \<Rightarrow> Exit n | Raise e \<Rightarrow> Raise e))
   \<and> ssh w None (Some name) None username key_file port ssh_options private_ip
        gateway_instance_id gateway_username dry_run profile_name =
       (let c = create_ssh_command w None (Some [(''Name'', name)]) username key_file port
                  ssh_options private_ip gateway_instance_id gateway_username
        in (CreateSession profile_name # fst c
              @ (case snd c of
                   Return cmd \<Rightarrow> [if dry_run then Echo cmd else ShellCall cmd]
                 | Exit n \<Rightarrow> []
                 | Raise e \<Rightarrow> []),
            case snd c of Return cmd \<Rightarrow> Return () | Exit n \<Rightarrow> Exit n | Raise e \<Rightarrow> Raise e))
   \<and> (parse_tags t = Inr tgs \<longrightarrow>
        ssh w None None (Some t) username key_file port ssh_options private_ip
          gateway_instance_id gateway_username dry_run profile_name =
         (let c = create_ssh_command w None (Some tgs) username key_file port ssh_options
                    private_ip gateway_instance_id gateway_username
          in (CreateSession profile_name # fst c
                @ (case snd c of
                     Return cmd \<Rightarrow> [if dry_run then Echo cmd else ShellCall cmd]
                   | Exit n \<Rightarrow> []
                   | Raise e \<Rightarrow> []),
              case snd c of Return cmd \<Rightarrow> Return () | Exit n \<Rightarrow> Exit n | Raise e \<Rightarrow> Raise e)))
   \<and> (parse_tags t = Inl err \<longrightarrow>
        ssh w None None (Some t) username key_file port ssh_options private_ip
          gateway_instance_id gateway_username dry_run profile_name =
          ([CreateSession profile_name], Raise err)
        \<and> exit_code (snd (ssh w None None (Some t) username key_file port ssh_options
                             private_ip gateway_instance_id gateway_username dry_run
                             profile_name)) = 1
        \<and> filter is_provider_call
             (fst (ssh w None None (Some t) username key_file port ssh_options private_ip
                     gateway_instance_id gateway_username dry_run profile_name)) = [])"
proof -
  let ?run = "ssh w instance_id instance_name instance_tags username key_file port ssh_options
                private_ip gateway_instance_id gateway_username dry_run profile_name"
  let ?g = "flags_given instance_id instance_name instance_tags"
  let ?c = "count_list [instance_id, instance_name, instance_tags] None"
  have c: "?c = 3 - ?g"
    by (rule flags_given_count)
  have g: "?g \<le> 3"
    by (rule flags_given_le)
  have zero: "?run = ([CreateSession profile_name, EchoErr one_has_to_be_specified], Exit 1)"
    if "?g = 0"
  proof -
    from that c have "?c = 3" by simp
    then show ?thesis by (simp add: ssh_def)
  qed
  have many: "?run = ([CreateSession profile_name, EchoErr only_one_can_be_specified], Exit 1)"
    if "1 < ?g"
  proof -
    from that c g have "?c \<noteq> 3" "?c < 2" by simp_all
    then show ?thesis by (simp add: ssh_def)
  qed
  have wrong: "exit_code (snd ?run) = 1 \<and> filter is_provider_call (fst ?run) = []"
    if "?g \<noteq> 1"
  proof (cases "?g = 0")
    case True
    then show ?thesis using zero by simp
  next
    case False
    with that have "1 < ?g" by simp
    then show ?thesis using many by simp
  qed
  note one = flags_given_one [of instance_id instance_name instance_tags]
  have proceeds:
    "ssh w a b c username key_file port ssh_options private_ip gateway_instance_id
       gateway_username dry_run profile_name =
     (let r = create_ssh_command w a d username key_file port ssh_options private_ip
                gateway_instance_id gateway_username
      in (CreateSession profile_name # fst r
            @ (case snd r of
                 Return cmd \<Rightarrow> [if dry_run then Echo cmd else ShellCall cmd]
               | Exit n \<Rightarrow> []
               | Raise e \<Rightarrow> []),
          case snd r of Return cmd \<Rightarrow> Return () | Exit n \<Rightarrow> Exit n | Raise e \<Rightarrow> Raise e))"
    if "count_list [a, b, c] None = 2" and "instance_tags_dict_of b c = Inr d" for a b c d
  proof -
    obtain es r where r:
      "create_ssh_command w a d username key_file port ssh_options private_ip
         gateway_instance_id gateway_username = (es, r)"
      by (cases "create_ssh_command w a d username key_file port ssh_options private_ip
                   gateway_instance_id gateway_username")
    from ssh_run [OF that r, of dry_run profile_name] r show ?thesis
      by simp
  qed
  have by_id: "ssh w (Some iid) None None username key_file port ssh_options private_ip
        gateway_instance_id gateway_username dry_run profile_name =
       (let c = create_ssh_command w (Some iid) None username key_file port ssh_options
                  private_ip gateway_instance_id gateway_username
        in (CreateSession profile_name # fst c
              @ (case snd c of
                   Return cmd \<Rightarrow> [if dry_run then Echo cmd else ShellCall cmd]
                 | Exit n \<Rightarrow> []
                 | Raise e \<Rightarrow> []),
            case snd c of Return cmd \<Rightarrow> Return () | Exit n \<Rightarrow> Exit n | Raise e \<Rightarrow> Raise e))"
    by (rule proceeds) (simp_all add: instance_tags_dict_of_def)
  have by_name: "ssh w None (Some name) None username key_file port ssh_options private_ip
        gateway_instance_id gateway_username dry_run profile_name =
       (let c = create_ssh_command w None (Some [(''Name'', name)]) username key_file port
                  ssh_options private_ip gateway_instance_id gateway_username
        in (CreateSession profile_name # fst c
              @ (case snd c of
                   Return cmd \<Rightarrow> [if dry_run then Echo cmd else ShellCall cmd]
                 | Exit n \<Rightarrow> []
                 | Raise e \<Rightarrow> []),
            case snd c of Return cmd \<Rightarrow> Return () | Exit n \<Rightarrow> Exit n | Raise e \<Rightarrow> Raise e))"
    by (rule proceeds) (simp_all add: instance_tags_dict_of_def)
  have by_tags: "ssh w None None (Some t) username key_file port ssh_options private_ip
          gateway_instance_id gateway_username dry_run profile_name =
         (let c = create_ssh_command w None (Some tgs) username key_file port ssh_options
                    private_ip gateway_instance_id gateway_username
          in (CreateSession profile_name # fst c
                @ (case snd c of
                     Return cmd \<Rightarrow> [if dry_run then Echo cmd else ShellCall cmd]
                   | Exit n \<Rightarrow> []
                   | Raise e \<Rightarrow> []),
              case snd c of Return cmd \<Rightarrow> Return () | Exit n \<Rightarrow> Exit n | Raise e \<Rightarrow> Raise e))"
    if "parse_tags t = Inr tgs"
    by (rule proceeds) (simp_all add: instance_tags_dict_of_def that)
  have malformed: "ssh w None None (Some t) username key_file port ssh_options private_ip
          gateway_instance_id gateway_username dry_run profile_name =
          ([CreateSession profile_name], Raise err)
        \<and> exit_code (snd (ssh w None None (Some t) username key_file port ssh_options
                             private_ip gateway_instance_id gateway_username dry_run
                             profile_name)) = 1
        \<and> filter is_provider_call
             (fst (ssh w None None (Some t) username key_file port ssh_options private_ip
                     gateway_instance_id gateway_username dry_run profile_name)) = []"
    if "parse_tags t = Inl err"
    by (simp add: ssh_tags_parse_error [OF that])
  show ?thesis
    using zero many wrong one by_id by_name by_tags malformed by blast
qed

theorem selection_flag_count_witness:
  "flags_given None None None = 0
   \<and> ssh single_match_world None None None None None 22 None False None None True None =
       ([CreateSession None, EchoErr one_has_to_be_specified], Exit 1)
   \<and> 1 < flags_given (Some ''i-a'') (Some ''a'') None
   \<and> ssh single_match_world (Some ''i-a'') (Some ''a'') None None None 22 None False None None
        True None =
       ([CreateSession None, EchoErr only_one_can_be_specified], Exit 1)
   \<and> flags_given (Some ''i-a'') None None = 1
   \<and> ssh single_match_world (Some ''i-a'') None None None None 22 None False None None True
        None =
       ([CreateSession None, LoadInstance ''i-a'', Echo ''ssh 1.1.1.1 -p 22''], Return ())
   \<and> ssh single_match_world None (Some ''a'') None None None 22 None False None None True
        None =
       ([CreateSession None,
         FilterInstances [(''instance-state-name'', [''running'']), (''tag:Name'', [''a''])],
         Echo ''ssh 1.1.1.1 -p 22''],
        Return ())
   \<and> parse_tags ''role:web'' = Inr [(''role'', ''web'')]
   \<and> ssh single_match_world None None (Some ''role:web'') None None 22 None False None None
        True None =
       ([CreateSession None,
         FilterInstances [(''instance-state-name'', [''running'']), (''tag:role'', [''web''])],
         Echo ''ssh 1.1.1.1 -p 22''],
        Return ())
   \<and> parse_tags ''env'' = Inl ValueError
   \<and> ssh single_match_world None None (Some ''env'') None None 22 None False None None True
        None =
       ([CreateSession None], Raise ValueError)"
proof -
  have g0: "flags_given None None None = 0"
    and g2: "1 < flags_given (Some ''i-a'') (Some ''a'') None"
    and g1: "flags_given (Some ''i-a'') None None = 1"
    by (simp_all add: flags_given_def)
  have ci: "create_ssh_command single_match_world (Some ''i-a'') None None None 22 None False
              None None = ([LoadInstance ''i-a''], Return ''ssh 1.1.1.1 -p 22'')"
    by (simp add: create_ssh_command_def resolve_target_def compose_command_def
        single_match_world_def example_load_def web_a_def get_instance_ip_address_def
        io_bind_Return build_option_username_def str_int_22)
  note ct = create_ssh_command_single_match
  note ok = parse_tags_role_web
  note bad = parse_tags_env
  note t0 = selection_flag_count [where instance_id = None and instance_name = None
      and instance_tags = None and w = single_match_world and username = None
      and key_file = None and port = 22 and ssh_options = None and private_ip = False
      and gateway_instance_id = None and gateway_username = None and dry_run = True
      and profile_name = None and iid = "''i-a''" and name = "''a''" and t = "''role:web''"
      and tgs = "[(''role'', ''web'')]" and err = ValueError]
  note t2 = selection_flag_count [where instance_id = "Some ''i-a''"
      and instance_name = "Some ''a''"
      and instance_tags = None and w = single_match_world and username = None
      and key_file = None and port = 22 and ssh_options = None and private_ip = False
      and gateway_instance_id = None and gateway_username = None and dry_run = True
      and profile_name = None and iid = "''i-a''" and name = "''a''" and t = "''env''"
      and tgs = "[]" and err = ValueError]
  have c0: "ssh single_match_world None None None None None 22 None False None None True None =
       ([CreateSession None, EchoErr one_has_to_be_specified], Exit 1)"
    using t0 g0 by blast
  have c2: "ssh single_match_world (Some ''i-a'') (Some ''a'') None None None 22 None False
              None None True None =
       ([CreateSession None, EchoErr only_one_can_be_specified], Exit 1)"
    using t2 g2 by blast
  have ci': "ssh single_match_world (Some ''i-a'') None None None None 22 None False None None
               True None =
       ([CreateSession None, LoadInstance ''i-a'', Echo ''ssh 1.1.1.1 -p 22''], Return ())"
    using t0 by (simp add: ci)
  have cn: "ssh single_match_world None (Some ''a'') None None None 22 None False None None
              True None =
       ([CreateSession None, FilterInstances (conditions_of [(''Name'', ''a'')]),
         Echo ''ssh 1.1.1.1 -p 22''],
        Return ())"
    using t0 by (simp add: ct)
  have "ssh single_match_world None None (Some ''role:web'') None None 22 None False None None
              True None =
         (let c = create_ssh_command single_match_world None (Some [(''role'', ''web'')]) None
                    None 22 None False None None
          in (CreateSession None # fst c
                @ (case snd c of
                     Return cmd \<Rightarrow> [if True then Echo cmd else ShellCall cmd]
                   | Exit n \<Rightarrow> []
                   | Raise e \<Rightarrow> []),
              case snd c of Return cmd \<Rightarrow> Return () | Exit n \<Rightarrow> Exit n | Raise e \<Rightarrow> Raise e))"
    using t0 ok by blast
  then have cr: "ssh single_match_world None None (Some ''role:web'') None None 22 None False
              None None True None =
       ([CreateSession None, FilterInstances (conditions_of [(''role'', ''web'')]),
         Echo ''ssh 1.1.1.1 -p 22''],
        Return ())"
    by (simp add: ct)
  have ce: "ssh single_match_world None None (Some ''env'') None None 22 None False None None
              True None = ([CreateSession None], Raise ValueError)"
    using t2 bad by blast
  show ?thesis
    using g0 g1 g2 ok bad c0 c2 ci' cn cr ce by (simp add: conditions_of_def)
qed

text \<open>The claim as written fails for a tag string without colon: exactly one option is
  given, and the run ends before \<open>create_ssh_command\<close>.\<close>

theorem malformed_tags_stop_counterexample:
  "flags_given None None (Some ''env'') = 1
   \<and> ssh example_world None None (Some ''env'') None None 22 None False None None False None =
       ([CreateSession None], Raise ValueError)
   \<and> filter is_provider_call
        (fst (ssh example_world None None (Some ''env'') None None 22 None False None None
                False None)) = []
   \<and> exit_code (snd (ssh example_world None None (Some ''env'') None None 22 None False None
                        None False None)) = 1"
  by (simp add: flags_given_def ssh_tags_parse_error [OF parse_tags_env])

text \<open>
  C6, as the code has it. When the command has been composed, the connect command with the
  dry-run flag prints it, starts no shell and ends with status 0. Without the flag it hands
  the command to the shell and then returns: the status of the process is 0 whatever status
  the command ended with, because the value of the call is dropped.
\<close>

theorem connect_runs_command:
  "flags_given instance_id instance_name instance_tags = 1
   \<and> instance_tags_dict_of instance_name instance_tags = Inr d
   \<and> create_ssh_command w instance_id d username key_file port ssh_options private_ip
        gateway_instance_id gateway_username = (es, Return cmd) \<longrightarrow>
     ssh w instance_id instance_name instance_tags username key_file port ssh_options
       private_ip gateway_instance_id gateway_username True profile_name =
       (CreateSession profile_name # es @ [Echo cmd], Return ())
     \<and> filter is_shell_call (CreateSession profile_name # es @ [Echo cmd]) = []
     \<and> exit_code (snd (ssh w instance_id instance_name instance_tags username key_file port
                          ssh_options private_ip gateway_instance_id gateway_username True
                          profile_name)) = 0
     \<and> ssh w instance_id instance_name instance_tags username key_file port ssh_options
         private_ip gateway_instance_id gateway_username False profile_name =
         (CreateSession profile_name # es @ [ShellCall cmd], Return ())
     \<and> exit_code (snd (ssh (w\<lparr>shell_status := sh\<rparr>) instance_id instance_name instance_tags
                          username key_file port ssh_options private_ip gateway_instance_id
                          gateway_username False profile_name)) = 0"
proof (intro impI)
  assume a: "flags_given instance_id instance_name instance_tags = 1
   \<and> instance_tags_dict_of instance_name instance_tags = Inr d
   \<and> create_ssh_command w instance_id d username key_file port ssh_options private_ip
        gateway_instance_id gateway_username = (es, Return cmd)"
  have n: "count_list [instance_id, instance_name, instance_tags] None = 2"
    unfolding flags_given_count using a by simp
  from a have t: "instance_tags_dict_of instance_name instance_tags = Inr d"
    and c: "create_ssh_command w instance_id d username key_file port ssh_options private_ip
              gateway_instance_id gateway_username = (es, Return cmd)"
    by simp_all
  have c': "create_ssh_command (w\<lparr>shell_status := sh\<rparr>) instance_id d username key_file port
              ssh_options private_ip gateway_instance_id gateway_username = (es, Return cmd)"
    using c by (simp add: shell_status_unused)
  have es: "filter is_shell_call es = []"
    using no_shell_create_ssh_command [of w instance_id d username key_file port ssh_options
            private_ip gateway_instance_id gateway_username] c
    by simp
  note dry = ssh_run [OF n t c, of True profile_name]
  note run = ssh_run [OF n t c, of False profile_name]
  note run' = ssh_run [OF n t c', of False profile_name]
  show "ssh w instance_id instance_name instance_tags username key_file port ssh_options
       private_ip gateway_instance_id gateway_username True profile_name =
       (CreateSession profile_name # es @ [Echo cmd], Return ())
     \<and> filter is_shell_call (CreateSession profile_name # es @ [Echo cmd]) = []
     \<and> exit_code (snd (ssh w instance_id instance_name instance_tags username key_file port
                          ssh_options private_ip gateway_instance_id gateway_username True
                          profile_name)) = 0
     \<and> ssh w instance_id instance_name instance_tags username key_file port ssh_options
         private_ip gateway_instance_id gateway_username False profile_name =
         (CreateSession profile_name # es @ [ShellCall cmd], Return ())
     \<and> exit_code (snd (ssh (w\<lparr>shell_status := sh\<rparr>) instance_id instance_name instance_tags
                          username key_file port ssh_options private_ip gateway_instance_id
                          gateway_username False profile_name)) = 0"
    using dry run run' es by simp
qed

theorem connect_runs_command_witness:
  "flags_given (Some ''i-a'') None None = 1
   \<and> instance_tags_dict_of None None = Inr None
   \<and> create_ssh_command example_world (Some ''i-a'') None None None 22 None False None None =
       ([LoadInstance ''i-a''], Return ''ssh 1.1.1.1 -p 22'')
   \<and> ssh example_world (Some ''i-a'') None None None None 22 None False None None True None =
       ([CreateSession None, LoadInstance ''i-a'', Echo ''ssh 1.1.1.1 -p 22''], Return ())
   \<and> ssh example_world (Some ''i-a'') None None None None 22 None False None None False None =
       ([CreateSession None, LoadInstance ''i-a'', ShellCall ''ssh 1.1.1.1 -p 22''], Return ())"
proof -
  have g: "flags_given (Some ''i-a'') None None = 1"
    by (simp add: flags_given_def)
  have d: "instance_tags_dict_of None None = Inr None"
    by (simp add: instance_tags_dict_of_def)
  note c = create_ssh_command_example_by_id
  show ?thesis
    using connect_runs_command [of "Some ''i-a''" None None None example_world None None 22
            None False None None "[LoadInstance ''i-a'']" "''ssh 1.1.1.1 -p 22''" None
            failing_shell] g d c
    by simp
qed

text \<open>The claim as written fails when the command ends with a status other than 0: here the
  shell reports 255 and the process still ends with 0.\<close>

theorem exit_status_dropped_counterexample:
  "ssh example_world (Some ''i-a'') None None None None 22 None False None None False None =
     ([CreateSession None, LoadInstance ''i-a'', ShellCall ''ssh 1.1.1.1 -p 22''], Return ())
   \<and> shell_status example_world ''ssh 1.1.1.1 -p 22'' = 255
   \<and> exit_code (snd (ssh example_world (Some ''i-a'') None None None None 22 None False None
                        None False None)) = 0"
proof -
  have n: "count_list [Some ''i-a'', None, None] None = 2"
    by simp
  have d: "instance_tags_dict_of None None = Inr None"
    by (simp add: instance_tags_dict_of_def)
  from ssh_run [OF n d create_ssh_command_example_by_id, of False None]
  show ?thesis
    by (simp add: example_world_def failing_shell_def)
qed

text \<open>
  C5. The claim is that the candidates are listed in the order sorted by the tag \<open>Name\<close>.
  The code lists them in the order of the provider, while the index typed at the prompt is
  applied to the sorted list. With the provider answering \<open>web_b\<close> before \<open>web_a\<close>, the
  listing shows \<open>i-b\<close> at index 0 and \<open>i-a\<close> at index 1, and index 0 connects to \<open>i-a\<close>.
  Each line does show the index, the id, the public address, the state, the name tag and the
  name of the key pair.
\<close>

theorem candidates_listed_in_provider_order:
  "create_ssh_command example_world None (Some [(''role'', ''web'')]) None None 22 None False
     None None =
     ([FilterInstances [(''instance-state-name'', [''running'']), (''tag:role'', [''web''])],
       Echo (''[0]: i-b'' @ [CHR 0x09] @ ''None'' @ [CHR 0x09] @ ''running'' @ [CHR 0x09]
             @ ''b'' @ [CHR 0x09] @ ''None''),
       Echo (''[1]: i-a'' @ [CHR 0x09] @ ''1.1.1.1'' @ [CHR 0x09] @ ''running'' @ [CHR 0x09]
             @ ''a'' @ [CHR 0x09] @ ''ops''),
       Prompt ''Please enter a valid number'',
       Echo ''0 is selected.''],
      Return ''ssh 1.1.1.1 -p 22'')
   \<and> py_sorted name_tag [web_b, web_a] = [web_a, web_b]"
proof -
  have f: "filter_instances example_world (conditions_of [(''role'', ''web'')]) =
             Inr [web_b, web_a]"
    by (simp add: example_world_def example_filter_def)
  have p: "(0::int) = (case prompt_answer example_world of None \<Rightarrow> 0 | Some n \<Rightarrow> n)"
    by (simp add: example_world_def)
  have pa: "public_ip_address web_a = Some ''1.1.1.1''"
    by (simp add: web_a_def)
  have r: "resolve_target example_world None (Some [(''role'', ''web'')]) False =
             ([FilterInstances (conditions_of [(''role'', ''web'')]),
               Echo (candidate_line (0, web_b)), Echo (candidate_line (1, web_a)),
               Prompt ''Please enter a valid number'', Echo ''0 is selected.''],
              Return (Some (web_a, Some ''1.1.1.1'')))"
    using resolve_target_selected [OF f _ p, of False]
    by (simp add: sorted_example enumerate_eq_zip upt_rec str_int_0
        get_instance_ip_address_def pa)
  have l: "candidate_line (0, web_b) =
             ''[0]: i-b'' @ [CHR 0x09] @ ''None'' @ [CHR 0x09] @ ''running'' @ [CHR 0x09]
             @ ''b'' @ [CHR 0x09] @ ''None''"
          "candidate_line (Suc 0, web_a) =
             ''[1]: i-a'' @ [CHR 0x09] @ ''1.1.1.1'' @ [CHR 0x09] @ ''running'' @ [CHR 0x09]
             @ ''a'' @ [CHR 0x09] @ ''ops''"
    by (simp_all add: candidate_line_def web_a_def web_b_def str_int_0 str_int_1)
  have "create_ssh_command example_world None (Some [(''role'', ''web'')]) None None 22 None
          False None None =
        ([FilterInstances (conditions_of [(''role'', ''web'')]),
          Echo (candidate_line (0, web_b)), Echo (candidate_line (1, web_a)),
          Prompt ''Please enter a valid number'', Echo ''0 is selected.''],
         Return ''ssh 1.1.1.1 -p 22'')"
    by (simp add: create_ssh_command_def r io_bind_Return compose_command_def
        build_option_username_def str_int_22)
  then show ?thesis
    by (simp add: l conditions_of_def sorted_example)
qed

end
